theory Spec2Isabelle
  imports Main "HOL-Library.Word"
begin

section \<open>Bytes, errors and slices\<close>

text \<open>
  A Go \<^verbatim>\<open>byte\<close> is an 8-bit value; HOL's \<open>char\<close> is one too, so a byte sequence is a
  \<open>string\<close> and the literals of the source can be written as they are.
\<close>

type_synonym byte = char

definition LF :: byte where
  "LF = CHR 0x0A"

definition CR :: byte where
  "CR = CHR 0x0D"

text \<open>
  The error values of both packages. \<open>Wrapped m e\<close> is \<^verbatim>\<open>fmt.Errorf(m + ": %w", e)\<close>;
  \<open>Canceled\<close> is \<^verbatim>\<open>context.Canceled\<close>, \<open>EOF\<close> is \<^verbatim>\<open>io.EOF\<close>, \<open>ErrNoProgress\<close> is
  \<^verbatim>\<open>io.ErrNoProgress\<close> and \<open>Transport m\<close> stands for any other error of the HTTP
  client or of the response body.
\<close>

datatype error =
    EOF
  | ErrNoProgress
  | ErrBufferFull
  | Canceled
  | ErrInvalidStatus
  | ErrInvalidContentType
  | Transport string
  | Wrapped string error

text \<open>\<^verbatim>\<open>errors.Is\<close>: the target is the error itself or one it wraps.\<close>

fun errors_Is :: "error \<Rightarrow> error \<Rightarrow> bool" where
  "errors_Is (Wrapped m e) t = (Wrapped m e = t \<or> errors_Is e t)"
| "errors_Is e t = (e = t)"

text \<open>
  A \<^verbatim>\<open>[]byte\<close> that is stored in a field buffer or handed to the callback: \<open>Nil\<close> is
  the nil slice, \<open>Slice xs c\<close> a non-nil slice with elements \<open>xs\<close> and capacity \<open>c\<close>.
\<close>

datatype slice = Nil | Slice "byte list" nat

fun elems :: "slice \<Rightarrow> byte list" where
  "elems Nil = []"
| "elems (Slice xs c) = xs"

fun len :: "slice \<Rightarrow> nat" where
  "len s = length (elems s)"

fun cap :: "slice \<Rightarrow> nat" where
  "cap Nil = 0"
| "cap (Slice xs c) = c"

text \<open>\<^verbatim>\<open>s[:0]\<close>: a nil slice stays nil, any other slice keeps its array.\<close>

fun reslice0 :: "slice \<Rightarrow> slice" where
  "reslice0 Nil = Nil"
| "reslice0 (Slice xs c) = Slice [] c"

text \<open>
  \<^verbatim>\<open>append(s, ys...)\<close>. Appending nothing to the nil slice gives the nil slice. Where the
  capacity does not suffice Go allocates an array of a size its runtime chooses; the
  model takes the larger of the needed length and twice the old capacity (\<open>appendLimit\<close>
  grows the slice first, so that branch is never taken there).
\<close>

fun go_append :: "slice \<Rightarrow> byte list \<Rightarrow> slice" where
  "go_append Nil ys = (if ys = [] then Nil else Slice ys (length ys))"
| "go_append (Slice xs c) ys =
     (if length xs + length ys \<le> c then Slice (xs @ ys) c
      else Slice (xs @ ys) (max (length xs + length ys) (2 * c)))"

text \<open>
  A \<^verbatim>\<open>[]byte\<close> that is only read (the value of a field line): \<open>None\<close> is nil.
\<close>

fun bytes_of :: "byte list option \<Rightarrow> byte list" where
  "bytes_of None = []"
| "bytes_of (Some v) = v"

section \<open>buffer.go: the read buffer\<close>

text \<open>
  The byte source behind the buffer, an \<^verbatim>\<open>io.Reader\<close>: the bytes it still has to
  deliver, the sizes of its next reads (one entry per call of \<open>Read\<close>; a read never
  delivers more than the space offered, and with no entry left it delivers all that
  fits, as \<^verbatim>\<open>strings.Reader\<close> does), and the error it reports once the bytes are used
  up (\<open>EOF\<close> for \<^verbatim>\<open>strings.Reader\<close>; a response body may also end with a transport
  error or a cancellation).
\<close>

record Reader =
  data :: "byte list"
  chunks :: "nat list"
  final :: error

text \<open>\<open>Read rd k\<close> is \<^verbatim>\<open>rd.Read(p)\<close> with \<open>len(p) = k\<close>: the bytes read, the error, the new source.\<close>

definition Read :: "Reader \<Rightarrow> nat \<Rightarrow> byte list \<times> error option \<times> Reader" where
  "Read src k =
     (if data src = [] then ([], Some (final src), src)
      else (let c = (case chunks src of [] \<Rightarrow> k | c # cs \<Rightarrow> min c k)
            in (take c (data src), None,
                src\<lparr>data := drop c (data src), chunks := tl (chunks src)\<rparr>)))"

definition defaultBufSize :: nat where
  "defaultBufSize = 4096"

definition maxConsecutiveEmptyReads :: nat where
  "maxConsecutiveEmptyReads = 100"

text \<open>
  \<open>ReadBuffer\<close>, lines 22-29. \<open>buf\<close> holds all \<open>len(buf)\<close> bytes of the backing array;
  the cursors are never negative.
\<close>

record ReadBuffer =
  buf :: "byte list"
  rd :: Reader
  r :: nat
  w :: nat
  err :: "error option"
  maxSize :: nat
  crLine :: bool

text \<open>
  \<open>New\<close> of the buffer package, lines 31-38. \<^verbatim>\<open>make\<close> panics on a negative size: the
  result is \<open>None\<close> then.
\<close>

definition buffer_New :: "Reader \<Rightarrow> int \<Rightarrow> ReadBuffer option" where
  "buffer_New src n =
     (let bufSize = min n (int defaultBufSize)
      in if bufSize < 0 then None
         else Some \<lparr>buf = replicate (nat bufSize) (CHR 0x00), rd = src, r = 0, w = 0,
                    err = None, maxSize = nat n, crLine = False\<rparr>)"

text \<open>\<^verbatim>\<open>xs[i:j]\<close>, and \<^verbatim>\<open>copy(dst, src)\<close> as the new contents of \<open>dst\<close>.\<close>

definition slice_of :: "'a list \<Rightarrow> nat \<Rightarrow> nat \<Rightarrow> 'a list" where
  "slice_of xs i j = take (j - i) (drop i xs)"

definition copy :: "'a list \<Rightarrow> 'a list \<Rightarrow> 'a list" where
  "copy dst src = take (length dst) src @ drop (length src) dst"

text \<open>\<open>grow\<close>, lines 40-50.\<close>

definition grow :: "ReadBuffer \<Rightarrow> bool \<times> ReadBuffer" where
  "grow b =
     (if length (buf b) \<ge> maxSize b then (False, b)
      else (let newSize = min (maxSize b) (length (buf b) * 2);
                newBuf = copy (replicate newSize (CHR 0x00)) (buf b)
            in (True, b\<lparr>buf := newBuf\<rparr>)))"

text \<open>
  The reading loop of \<open>fill\<close>, lines 70-84, with the number of tries left. The source
  delivers a list of bytes, so the count is never negative and the panic of line 73
  has no branch here.
\<close>

fun fill_read :: "nat \<Rightarrow> ReadBuffer \<Rightarrow> ReadBuffer" where
  "fill_read 0 b = b\<lparr>err := Some ErrNoProgress\<rparr>"
| "fill_read (Suc i) b =
     (let (p, e, src) = Read (rd b) (length (buf b) - w b);
          b1 = b\<lparr>buf := take (w b) (buf b) @ copy (drop (w b) (buf b)) p,
                 rd := src,
                 w := w b + length p\<rparr>
      in case e of
           Some e' \<Rightarrow> b1\<lparr>err := Some e'\<rparr>
         | None \<Rightarrow> if length p > 0 then b1 else fill_read i b1)"

text \<open>\<open>fill\<close>, lines 53-85.\<close>

definition fill :: "ReadBuffer \<Rightarrow> ReadBuffer" where
  "fill b =
     (let b1 = (if r b > 0
                then b\<lparr>buf := copy (buf b) (slice_of (buf b) (r b) (w b)),
                       w := w b - r b,
                       r := 0\<rparr>
                else b)
      in if w b1 \<ge> length (buf b1)
         then (case grow b1 of
                 (False, b2) \<Rightarrow> b2\<lparr>err := Some ErrBufferFull\<rparr>
               | (True, b2) \<Rightarrow> fill_read maxConsecutiveEmptyReads b2)
         else fill_read maxConsecutiveEmptyReads b1)"

text \<open>\<open>findCRLF\<close>, lines 87-95, with \<open>None\<close> for \<open>-1\<close>.\<close>

fun findCRLF :: "byte list \<Rightarrow> nat option" where
  "findCRLF [] = None"
| "findCRLF (c # cs) =
     (if c = CR \<or> c = LF then Some 0
      else (case findCRLF cs of None \<Rightarrow> None | Some i \<Rightarrow> Some (Suc i)))"

text \<open>
  The quantity that bounds the loop of \<open>ReadLine\<close>: with an error pending the loop
  ends at once, and each \<open>fill\<close> sets the error or takes bytes from the source.
\<close>

definition fuel_of :: "ReadBuffer \<Rightarrow> nat" where
  "fuel_of b = (case err b of None \<Rightarrow> Suc (length (data (rd b))) | Some e \<Rightarrow> 0)"

lemma fill_read_progress:
  "err b = None \<Longrightarrow> fuel_of (fill_read i b) < fuel_of b"
proof (induction i arbitrary: b)
  case 0
  then show ?case by (simp add: fuel_of_def)
next
  case (Suc i)
  show ?case
  proof (cases "data (rd b) = []")
    case True
    with Suc.prems show ?thesis by (simp add: Read_def fuel_of_def)
  next
    case False
    define c where "c = (case chunks (rd b) of [] \<Rightarrow> length (buf b) - w b
                         | c # cs \<Rightarrow> min c (length (buf b) - w b))"
    define b1 where "b1 = b\<lparr>buf := take (w b) (buf b) @ copy (drop (w b) (buf b)) (take c (data (rd b))),
                           rd := (rd b)\<lparr>data := drop c (data (rd b)), chunks := tl (chunks (rd b))\<rparr>,
                           w := w b + length (take c (data (rd b)))\<rparr>"
    have step: "fill_read (Suc i) b = (if length (take c (data (rd b))) > 0 then b1 else fill_read i b1)"
      using False by (simp add: Read_def c_def b1_def Let_def)
    have e1: "err b1 = None" using Suc.prems by (simp add: b1_def)
    show ?thesis
    proof (cases "length (take c (data (rd b))) > 0")
      case True
      then have "0 < c" by (cases c) auto
      with \<open>data (rd b) \<noteq> []\<close>
      have "length (drop c (data (rd b))) < length (data (rd b))" by simp
      moreover have "fill_read (Suc i) b = b1" using True by (simp only: step if_True)
      ultimately show ?thesis using Suc.prems
        by (simp add: b1_def fuel_of_def del: fill_read.simps)
    next
      case False
      have "fuel_of (fill_read i b1) < fuel_of b1" using Suc.IH [OF e1] .
      moreover have "fuel_of b1 \<le> fuel_of b" using Suc.prems by (simp add: b1_def fuel_of_def)
      moreover have "fill_read (Suc i) b = fill_read i b1" using False by (simp only: step if_False)
      ultimately show ?thesis by (simp del: fill_read.simps)
    qed
  qed
qed

lemma fill_progress:
  "err b = None \<Longrightarrow> fuel_of (fill b) < fuel_of b"
proof -
  assume e: "err b = None"
  define b1 where "b1 = (if r b > 0
                then b\<lparr>buf := copy (buf b) (slice_of (buf b) (r b) (w b)),
                       w := w b - r b,
                       r := 0\<rparr>
                else b)"
  have e1: "err b1 = None" and f1: "fuel_of b1 = fuel_of b"
    using e by (simp_all add: b1_def fuel_of_def)
  have g: "fuel_of (b1\<lparr>buf := x\<rparr>) = fuel_of b1" for x
    by (simp add: fuel_of_def split: option.split)
  have "fuel_of (fill_read maxConsecutiveEmptyReads b1) < fuel_of b"
    using fill_read_progress [OF e1] f1 by simp
  moreover have "fuel_of (fill_read maxConsecutiveEmptyReads (b1\<lparr>buf := x\<rparr>)) < fuel_of b" for x
    using fill_read_progress [of "b1\<lparr>buf := x\<rparr>"] e1 f1 g by simp
  moreover have "fuel_of (b1\<lparr>err := Some ErrBufferFull\<rparr>) < fuel_of b"
    using e by (simp add: fuel_of_def)
  ultimately show ?thesis
    unfolding fill_def b1_def [symmetric] Let_def grow_def by (simp split: if_splits)
qed

text \<open>
  \<open>ReadLine\<close>, lines 103-145: the loop with its local \<open>s\<close>, the line and the error it
  returns, and the buffer afterwards. The returned line is a view into \<open>buf\<close>; the
  model returns its bytes.
\<close>

function ReadLine_loop :: "ReadBuffer \<Rightarrow> nat \<Rightarrow> (byte list \<times> error option) \<times> ReadBuffer" where
  "ReadLine_loop b s =
     (let b1 = (if crLine b
                then (let sl = slice_of (buf b) (r b) (w b)
                      in if length sl > 0
                         then (let b' = b\<lparr>crLine := False\<rparr>
                               in if hd sl = LF then b'\<lparr>r := r b' + 1\<rparr> else b')
                         else b)
                else b)
      in case findCRLF (slice_of (buf b1) (r b1 + s) (w b1)) of
           Some i0 \<Rightarrow>
             (let i = i0 + s;
                  line = slice_of (buf b1) (r b1) (r b1 + i);
                  b2 = b1\<lparr>crLine := (buf b1 ! (r b1 + i) = CR), r := r b1 + i + 1\<rparr>
              in ((line, None), b2))
         | None \<Rightarrow>
             (case err b1 of
                Some e \<Rightarrow> ((slice_of (buf b1) (r b1) (w b1), Some e), b1\<lparr>r := w b1, err := None\<rparr>)
              | None \<Rightarrow> ReadLine_loop (fill b1) (w b1 - r b1)))"
  by pat_completeness auto
termination
proof (relation "measure (\<lambda>(b, s). fuel_of b)")
  show "wf (measure (\<lambda>(b, s). fuel_of b))" by simp
next
  fix b :: ReadBuffer and s :: nat and b1
  assume b1: "b1 = (if crLine b
                then (let sl = slice_of (buf b) (r b) (w b)
                      in if length sl > 0
                         then (let b' = b\<lparr>crLine := False\<rparr>
                               in if hd sl = LF then b'\<lparr>r := r b' + 1\<rparr> else b')
                         else b)
                else b)"
    and e: "err b1 = None"
  have "fuel_of b1 = fuel_of b" by (simp add: b1 fuel_of_def Let_def split: option.split)
  with fill_progress [OF e]
  show "((fill b1, w b1 - r b1), (b, s)) \<in> measure (\<lambda>(b, s). fuel_of b)" by simp
qed

declare ReadLine_loop.simps [simp del]

definition ReadLine :: "ReadBuffer \<Rightarrow> (byte list \<times> error option) \<times> ReadBuffer" where
  "ReadLine b = ReadLine_loop b 0"

text \<open>
  The bytes not yet returned: those between the cursors and those still in the source.
  \<open>fill\<close> keeps their number and a line returned without an error uses up at least its
  terminator, which bounds the loop of \<open>processRequest\<close>.
\<close>

definition remaining :: "ReadBuffer \<Rightarrow> nat" where
  "remaining b = (w b - r b) + length (data (rd b))"

lemma findCRLF_less: "findCRLF xs = Some i \<Longrightarrow> i < length xs"
  by (induction xs arbitrary: i) (auto split: if_splits option.splits)

lemma fill_read_remaining: "r b = 0 \<Longrightarrow> remaining (fill_read i b) = remaining b"
proof (induction i arbitrary: b)
  case 0
  then show ?case by (simp add: remaining_def)
next
  case (Suc i)
  show ?case
  proof (cases "data (rd b) = []")
    case True
    with Suc.prems show ?thesis by (simp add: Read_def remaining_def)
  next
    case False
    define c where "c = (case chunks (rd b) of [] \<Rightarrow> length (buf b) - w b
                         | c # cs \<Rightarrow> min c (length (buf b) - w b))"
    define b1 where "b1 = b\<lparr>buf := take (w b) (buf b) @ copy (drop (w b) (buf b)) (take c (data (rd b))),
                           rd := (rd b)\<lparr>data := drop c (data (rd b)), chunks := tl (chunks (rd b))\<rparr>,
                           w := w b + length (take c (data (rd b)))\<rparr>"
    have step: "fill_read (Suc i) b = (if length (take c (data (rd b))) > 0 then b1 else fill_read i b1)"
      using False by (simp add: Read_def c_def b1_def Let_def)
    have r1: "r b1 = 0" using Suc.prems by (simp add: b1_def)
    have m1: "remaining b1 = remaining b"
      using Suc.prems by (simp add: b1_def remaining_def min_def)
    show ?thesis using Suc.IH [OF r1] m1 by (simp only: step split: if_splits) simp
  qed
qed

lemma fill_remaining: "remaining (fill b) = remaining b"
proof -
  define b1 where "b1 = (if r b > 0
                then b\<lparr>buf := copy (buf b) (slice_of (buf b) (r b) (w b)),
                       w := w b - r b,
                       r := 0\<rparr>
                else b)"
  have r1: "r b1 = 0" and m1: "remaining b1 = remaining b"
    by (simp_all add: b1_def remaining_def)
  have g: "remaining (b1\<lparr>buf := x\<rparr>) = remaining b1" for x by (simp add: remaining_def)
  have "remaining (fill_read maxConsecutiveEmptyReads b1) = remaining b"
    using fill_read_remaining [OF r1] m1 by simp
  moreover have "remaining (fill_read maxConsecutiveEmptyReads (b1\<lparr>buf := x\<rparr>)) = remaining b" for x
    using fill_read_remaining [of "b1\<lparr>buf := x\<rparr>"] r1 m1 g by simp
  moreover have "remaining (b1\<lparr>err := Some ErrBufferFull\<rparr>) = remaining b"
    using m1 by (simp add: remaining_def)
  ultimately show ?thesis
    unfolding fill_def b1_def [symmetric] Let_def grow_def by (simp split: if_splits)
qed

lemma ReadLine_loop_consumes:
  "ReadLine_loop b s = ((line, None), b') \<Longrightarrow> remaining b' < remaining b"
proof (induction b s rule: ReadLine_loop.induct)
  case (1 b s)
  define b1 where "b1 = (if crLine b
                then (let sl = slice_of (buf b) (r b) (w b)
                      in if length sl > 0
                         then (let b' = b\<lparr>crLine := False\<rparr>
                               in if hd sl = LF then b'\<lparr>r := r b' + 1\<rparr> else b')
                         else b)
                else b)"
  have m1: "remaining b1 \<le> remaining b"
    by (auto simp add: b1_def remaining_def Let_def)
  note step = ReadLine_loop.simps [of b s, unfolded b1_def [symmetric], unfolded Let_def]
  show ?case
  proof (cases "findCRLF (slice_of (buf b1) (r b1 + s) (w b1))")
    case (Some i0)
    from findCRLF_less [OF Some] have "r b1 + s + i0 < w b1"
      by (simp add: slice_of_def) arith
    moreover have "b' = b1\<lparr>crLine := (buf b1 ! (r b1 + (i0 + s)) = CR), r := r b1 + (i0 + s) + 1\<rparr>"
      using "1.prems" Some by (simp add: step)
    ultimately show ?thesis using m1 by (simp add: remaining_def)
  next
    case None
    show ?thesis
    proof (cases "err b1")
      case (Some e)
      with None "1.prems" show ?thesis by (simp add: step)
    next
      case e: None
      have "ReadLine_loop (fill b1) (w b1 - r b1) = ((line, None), b')"
        using "1.prems" None e by (simp add: step)
      from "1.IH" [OF b1_def None e this] fill_remaining [of b1] m1
      show ?thesis by simp
    qed
  qed
qed

lemma ReadLine_consumes:
  "((line, None), b') = ReadLine b \<Longrightarrow> remaining b' < remaining b"
  using ReadLine_loop_consumes [of b 0 line b'] by (simp add: ReadLine_def)

section \<open>eventsource.go: field buffers\<close>

text \<open>
  \<open>growMaybeLimit\<close>, lines 77-86. \<^verbatim>\<open>make([]byte, len(s), newCap)\<close> needs
  \<open>len(s) \<le> newCap\<close>; \<open>appendLimit\<close> calls it only with \<open>len(s) \<le> reqCap \<le> limit\<close>.
\<close>

definition growMaybeLimit :: "slice \<Rightarrow> nat \<Rightarrow> int \<Rightarrow> slice" where
  "growMaybeLimit s reqCap limit =
     (if cap s < reqCap
      then (let newCap = min limit (int (max reqCap (cap s * 2)))
            in Slice (elems s) (nat newCap))
      else s)"

text \<open>\<open>appendLimit\<close>, lines 88-107.\<close>

definition appendLimit :: "slice \<Rightarrow> byte list option \<Rightarrow> int \<Rightarrow> slice \<times> error option" where
  "appendLimit s ns limit =
     (if len s \<noteq> 0
      then (let nlen = len s + 1 + length (bytes_of ns)
            in if int nlen > limit then (Nil, Some ErrBufferFull)
               else (let s1 = growMaybeLimit s nlen limit;
                         s2 = go_append s1 [LF];
                         s3 = go_append s2 (bytes_of ns)
                     in (s3, None)))
      else (let nlen = length (bytes_of ns)
            in if int nlen > limit then (Nil, Some ErrBufferFull)
               else (let s1 = growMaybeLimit s nlen limit;
                         s2 = go_append s1 (bytes_of ns)
                     in (s2, None))))"

section \<open>eventsource.go: splitting a line\<close>

text \<open>\<^verbatim>\<open>bytes.Index(line, []byte(":"))\<close>, with \<open>None\<close> for \<open>-1\<close>.\<close>

fun index_colon :: "byte list \<Rightarrow> nat option" where
  "index_colon [] = None"
| "index_colon (c # cs) =
     (if c = CHR '':'' then Some 0
      else (case index_colon cs of None \<Rightarrow> None | Some i \<Rightarrow> Some (Suc i)))"

text \<open>
  \<open>splitLine\<close>, lines 180-191. The line is a view into the read buffer and never nil;
  the second result is nil (\<open>None\<close>) when the line has no colon.
\<close>

definition splitLine :: "byte list \<Rightarrow> byte list \<times> byte list option" where
  "splitLine line =
     (case index_colon line of
        None \<Rightarrow> (line, None)
      | Some i \<Rightarrow>
          (let key = take i line;
               val = drop (i + 1) line;
               val = (if i + 1 < length line \<and> line ! (i + 1) = CHR '' ''
                      then drop (i + 2) line else val)
           in (key, Some val)))"

section \<open>strconv.ParseInt\<close>

text \<open>
  \<^verbatim>\<open>strconv.ParseInt(s, 10, 64)\<close> of the Go library: an optional sign, then one or more
  decimal digits and nothing else; a value outside the signed 64-bit range is an error.
\<close>

definition is_digit :: "byte \<Rightarrow> bool" where
  "is_digit c = (48 \<le> (of_char c :: nat) \<and> (of_char c :: nat) \<le> 57)"

definition digit_val :: "byte \<Rightarrow> int" where
  "digit_val c = int (of_char c) - 48"

definition ParseInt :: "byte list \<Rightarrow> int option" where
  "ParseInt s =
     (if s = [] then None
      else (let neg = (hd s = CHR ''-'');
                ds = (if hd s = CHR ''+'' \<or> hd s = CHR ''-'' then tl s else s)
            in if ds = [] \<or> \<not> list_all is_digit ds then None
               else (let un = foldl (\<lambda>a d. 10 * a + digit_val d) 0 ds
                     in if \<not> neg \<and> un \<ge> 2 ^ 63 then None
                        else if neg \<and> un > 2 ^ 63 then None
                        else Some (if neg then - un else un))))"

section \<open>eventsource.go: the event source\<close>

record Message =
  ID :: slice
  Event :: slice
  Data :: slice

definition emptyMessage :: Message where
  "emptyMessage = \<lparr>ID = Nil, Event = Nil, Data = Nil\<rparr>"

record BufferParameters =
  MaxID :: int
  MaxEvent :: int
  MaxData :: int
  MaxReadBuffer :: int

text \<open>An HTTP header, as the list of its keys and values.\<close>

type_synonym header = "(string \<times> string) list"

fun Header_Set :: "header \<Rightarrow> string \<Rightarrow> string \<Rightarrow> header" where
  "Header_Set [] k v = [(k, v)]"
| "Header_Set ((k', v') # h) k v =
     (if k' = k then (k, v) # h else (k', v') # Header_Set h k v)"

definition Header_Get :: "header \<Rightarrow> string \<Rightarrow> string" where
  "Header_Get h k = (case map_of h k of None \<Rightarrow> [] | Some v \<Rightarrow> v)"

text \<open>
  The fields of \<open>EventSource\<close> that the worker reads and writes: \<open>req\<close> is the header of
  the request prototype, \<open>callback\<close> says whether a callback was given, and
  \<open>retryTimeout\<close> is a \<^verbatim>\<open>time.Duration\<close>, a signed 64-bit count of nanoseconds.
\<close>

record EventSource =
  req :: header
  callback :: bool
  bp :: BufferParameters
  idBuf :: slice
  eventBuf :: slice
  dataBuf :: slice
  msgErr :: "error option"
  retryTimeout :: "64 word"

text \<open>
  What the worker does to the world, in order: a request sent with a header, a call of
  the callback, a sleep.
\<close>

datatype event =
    Request header
  | Callback Message "error option"
  | Sleep "64 word"

text \<open>\<open>dispatch\<close>, lines 109-113.\<close>

definition dispatch :: "EventSource \<Rightarrow> Message \<Rightarrow> error option \<Rightarrow> event list" where
  "dispatch es msg e = (if callback es then [Callback msg e] else [])"

text \<open>\<open>perMessageReset\<close> and \<open>perRequestReset\<close>, lines 193-205.\<close>

definition perMessageReset :: "EventSource \<Rightarrow> EventSource" where
  "perMessageReset es =
     es\<lparr>idBuf := reslice0 (idBuf es),
        eventBuf := reslice0 (eventBuf es),
        dataBuf := reslice0 (dataBuf es),
        msgErr := None\<rparr>"

definition perRequestReset :: "EventSource \<Rightarrow> EventSource" where
  "perRequestReset es = es\<lparr>idBuf := Nil, eventBuf := Nil, dataBuf := Nil, msgErr := None\<rparr>"

definition Millisecond :: "64 word" where
  "Millisecond = 1000000"

text \<open>
  The body of the loop of \<open>processRequest\<close> for a line read without error, lines
  259-301: the new state and the calls of the callback.
\<close>

definition processLine :: "EventSource \<Rightarrow> byte list \<Rightarrow> EventSource \<times> event list" where
  "processLine es line =
     (if length line = 0
      then (let evs = (if msgErr es = None
                       then dispatch es \<lparr>ID = idBuf es, Event = eventBuf es, Data = dataBuf es\<rparr> None
                       else dispatch es emptyMessage (msgErr es))
            in (perMessageReset es, evs))
      else if msgErr es \<noteq> None then (es, [])
      else (let (key, val) = splitLine line
            in if length key = 0 then (es, [])
               else if key = ''id''
               then (let es1 = es\<lparr>idBuf := reslice0 (idBuf es)\<rparr>;
                         (s, e1) = appendLimit (idBuf es1) val (MaxID (bp es1));
                         es2 = es1\<lparr>idBuf := s\<rparr>
                     in case e1 of
                          Some e \<Rightarrow>
                            (es2\<lparr>msgErr := Some (Wrapped ''eventsource: id field is too long'' e)\<rparr>, [])
                        | None \<Rightarrow> (es2, []))
               else if key = ''event''
               then (let es1 = es\<lparr>eventBuf := reslice0 (eventBuf es)\<rparr>;
                         (s, e1) = appendLimit (eventBuf es1) val (MaxEvent (bp es1));
                         es2 = es1\<lparr>eventBuf := s\<rparr>
                     in case e1 of
                          Some e \<Rightarrow>
                            (es2\<lparr>msgErr := Some (Wrapped ''eventsource: event field is too long'' e)\<rparr>, [])
                        | None \<Rightarrow> (es2, []))
               else if key = ''data''
               then (let (s, e1) = appendLimit (dataBuf es) val (MaxData (bp es));
                         es2 = es\<lparr>dataBuf := s\<rparr>
                     in case e1 of
                          Some e \<Rightarrow>
                            (es2\<lparr>msgErr := Some (Wrapped ''eventsource: data field is too long'' e)\<rparr>, [])
                        | None \<Rightarrow> (es2, []))
               else if key = ''retry''
               then (case ParseInt (bytes_of val) of
                       Some ms \<Rightarrow> (es\<lparr>retryTimeout := word_of_int ms * Millisecond\<rparr>, [])
                     | None \<Rightarrow> (es, []))
               else (es, [])))"

text \<open>
  The loop of \<open>processRequest\<close>, lines 244-302: whether the worker goes on, the new
  state, and the calls of the callback.
\<close>

function streamLoop :: "EventSource \<Rightarrow> ReadBuffer \<Rightarrow> bool \<times> EventSource \<times> event list" where
  "streamLoop es rb =
     (case ReadLine rb of
        ((line, Some e), rb') \<Rightarrow>
          (if errors_Is e Canceled then (False, es, [])
           else if errors_Is e EOF then (True, es, [])
           else (True, es,
                 dispatch es emptyMessage
                   (Some (Wrapped ''eventsource: http response body read error'' e))))
      | ((line, None), rb') \<Rightarrow>
          (let (es1, evs) = processLine es line;
               (c, es2, evs') = streamLoop es1 rb'
           in (c, es2, evs @ evs')))"
  by pat_completeness auto
termination
  by (relation "measure (\<lambda>(es, rb). remaining rb)") (auto dest: ReadLine_consumes)

declare streamLoop.simps [simp del]

text \<open>
  The answer of \<^verbatim>\<open>es.client.Do(req)\<close>: an error, or a response with its status code,
  its \<^verbatim>\<open>Content-Type\<close> header and its body.
\<close>

record Response =
  StatusCode :: int
  ContentType :: string
  Body :: Reader

datatype doResult = DoErr error | DoResp Response

text \<open>
  \<open>processRequest\<close>, lines 211-303, for one answer of the HTTP client. The result is
  \<open>None\<close> where the worker panics (a negative \<open>MaxReadBuffer\<close>); otherwise it has the
  boolean returned, the new state and what happened: the request with its header,
  the calls of the callback, and the deferred sleep.
\<close>

definition processRequest ::
    "EventSource \<Rightarrow> doResult \<Rightarrow> (bool \<times> EventSource \<times> event list) option" where
  "processRequest es d =
     (let hdr = (if len (idBuf es) \<noteq> 0
                 then Header_Set (req es) ''Last-Event-Id'' (elems (idBuf es))
                 else req es)
      in case d of
           DoErr e \<Rightarrow>
             (if errors_Is e Canceled
              then Some (False, es, [Request hdr, Sleep (retryTimeout es)])
              else Some (True, es,
                         Request hdr #
                         dispatch es emptyMessage
                           (Some (Wrapped ''eventsource: http response error'' e)) @
                         [Sleep (retryTimeout es)]))
         | DoResp resp \<Rightarrow>
             (if StatusCode resp \<noteq> 200
              then Some (True, es,
                         Request hdr # dispatch es emptyMessage (Some ErrInvalidStatus) @
                         [Sleep (retryTimeout es)])
              else if ContentType resp \<noteq> ''text/event-stream''
              then Some (True, es,
                         Request hdr # dispatch es emptyMessage (Some ErrInvalidContentType) @
                         [Sleep (retryTimeout es)])
              else (let es1 = perRequestReset es
                    in case buffer_New (Body resp) (MaxReadBuffer (bp es1)) of
                         None \<Rightarrow> None
                       | Some rb \<Rightarrow>
                           (let (c, es2, evs) = streamLoop es1 rb
                            in Some (c, es2, Request hdr # evs @ [Sleep (retryTimeout es2)])))))"

text \<open>
  The worker of \<open>New\<close>, lines 337-341, against the successive answers of the HTTP
  client: it stops when \<open>processRequest\<close> returns false; the result describes its run
  up to there, or up to the last answer listed.
\<close>

fun worker :: "EventSource \<Rightarrow> doResult list \<Rightarrow> (EventSource \<times> event list) option" where
  "worker es [] = Some (es, [])"
| "worker es (d # ds) =
     (case processRequest es d of
        None \<Rightarrow> None
      | Some (c, es1, evs) \<Rightarrow>
          (if c
           then (case worker es1 ds of
                   None \<Rightarrow> None
                 | Some (es2, evs') \<Rightarrow> Some (es2, evs @ evs'))
           else Some (es1, evs)))"

definition DefaultMaxID :: int where
  "DefaultMaxID = 256"

definition DefaultMaxEvent :: int where
  "DefaultMaxEvent = 256"

definition DefaultMaxData :: int where
  "DefaultMaxData = 4 * 1024 * 1024"

definition Second :: "64 word" where
  "Second = 1000 * Millisecond"

text \<open>
  \<open>New\<close>, lines 305-335, for the header of the request prototype, the presence of a
  callback and the buffer parameters that the options set: the state the worker
  starts in.
\<close>

definition New :: "header \<Rightarrow> bool \<Rightarrow> BufferParameters \<Rightarrow> EventSource" where
  "New h cb p =
     (let p1 = (if MaxID p = 0 then p\<lparr>MaxID := DefaultMaxID\<rparr> else p);
          p2 = (if MaxEvent p1 = 0 then p1\<lparr>MaxEvent := DefaultMaxEvent\<rparr> else p1);
          p3 = (if MaxData p2 = 0 then p2\<lparr>MaxData := DefaultMaxData\<rparr> else p2);
          p4 = (if MaxReadBuffer p3 = 0
                then p3\<lparr>MaxReadBuffer :=
                          max (max (MaxID p3) (MaxEvent p3)) (MaxData p3) +
                          int (length (''event: '' @ [CR, LF])) + 1\<rparr>
                else p3)
      in \<lparr>req = h, callback = cb, bp = p4, idBuf = Nil, eventBuf = Nil, dataBuf = Nil,
          msgErr = None, retryTimeout = 1 * Second\<rparr>)"

text \<open>The loop body applied to successive lines, with the calls of the callback in order.\<close>

fun processLines :: "EventSource \<Rightarrow> byte list list \<Rightarrow> EventSource \<times> event list" where
  "processLines es [] = (es, [])"
| "processLines es (l # ls) =
     (let (es1, evs) = processLine es l;
          (es2, evs') = processLines es1 ls
      in (es2, evs @ evs'))"

text \<open>
  A field line whose value does not fit: the tests of \<open>appendLimit\<close> as \<open>processRequest\<close>
  calls it (the identifier and the type are truncated first, the data is appended
  after a line feed).
\<close>

definition exceeds :: "EventSource \<Rightarrow> byte list \<Rightarrow> byte list option \<Rightarrow> bool" where
  "exceeds es key val =
     ((key = ''id'' \<and> MaxID (bp es) < int (length (bytes_of val))) \<or>
      (key = ''event'' \<and> MaxEvent (bp es) < int (length (bytes_of val))) \<or>
      (key = ''data'' \<and>
       MaxData (bp es) <
         int (if len (dataBuf es) \<noteq> 0 then len (dataBuf es) + 1 + length (bytes_of val)
              else length (bytes_of val))))"

text \<open>
  Inputs for the examples: small limits, a worker that starts with them, and a
  response with status 200 and the content type of an event stream whose body delivers
  the given bytes and then ends.
\<close>

definition small_limits :: BufferParameters where
  "small_limits = \<lparr>MaxID = 2, MaxEvent = 2, MaxData = 4, MaxReadBuffer = 64\<rparr>"

definition small_es :: EventSource where
  "small_es = New [] True small_limits"

definition default_es :: EventSource where
  "default_es = New [] True \<lparr>MaxID = 0, MaxEvent = 0, MaxData = 0, MaxReadBuffer = 64\<rparr>"

definition eventStream :: "byte list \<Rightarrow> doResult" where
  "eventStream s =
     DoResp \<lparr>StatusCode = 200, ContentType = ''text/event-stream'',
             Body = \<lparr>data = s, chunks = [], final = EOF\<rparr>\<rparr>"


section \<open>Properties of the field parser\<close>

lemma index_colon_None: "CHR '':'' \<notin> set xs \<Longrightarrow> index_colon xs = None"
  by (induction xs) auto

lemma index_colon_first:
  "CHR '':'' \<notin> set k \<Longrightarrow> index_colon (k @ CHR '':'' # v) = Some (length k)"
  by (induction k) auto

lemma splitLine_colon:
  assumes "CHR '':'' \<notin> set k"
  shows "splitLine (k @ CHR '':'' # v) =
           (k, Some (case v of [] \<Rightarrow> [] | c # v' \<Rightarrow> if c = CHR '' '' then v' else v))"
proof (cases v)
  case Nil
  then show ?thesis using index_colon_first [OF assms, of v]
    by (simp add: splitLine_def Let_def)
next
  case (Cons c v')
  then show ?thesis using index_colon_first [OF assms, of v]
    by (simp add: splitLine_def Let_def nth_append)
qed

lemma splitLine_no_colon: "CHR '':'' \<notin> set line \<Longrightarrow> splitLine line = (line, None)"
  by (simp add: splitLine_def index_colon_None)

lemma processLine_comment: "processLine es (CHR '':'' # v) = (es, [])"
  by (simp add: processLine_def splitLine_def Let_def)

text \<open>
  Claim C8. \<open>splitLine\<close> splits a line at its first colon: the key is what stands before
  it, the value what stands after it less one leading space, if there is one. A line
  without a colon is the key, with no value. A line that starts with a colon has the
  empty key, and the loop of \<open>processRequest\<close> skips it: the state stays as it is and the
  callback is not called.
\<close>

theorem splitLine_first_colon:
  "(CHR '':'' \<notin> set k \<longrightarrow>
      splitLine (k @ CHR '':'' # v) =
        (k, Some (case v of [] \<Rightarrow> [] | c # v' \<Rightarrow> if c = CHR '' '' then v' else v))) \<and>
   (CHR '':'' \<notin> set line \<longrightarrow> splitLine line = (line, None)) \<and>
   fst (splitLine (CHR '':'' # t)) = [] \<and>
   processLine es (CHR '':'' # t) = (es, [])"
  using splitLine_colon [of k v] splitLine_no_colon [of line] splitLine_colon [of "[]" t]
    processLine_comment [of es t]
  by simp

theorem splitLine_first_colon_witness:
  "CHR '':'' \<notin> set ''foo'' \<and> splitLine ''foo:  bar: baz'' = (''foo'', Some '' bar: baz'') \<and>
   splitLine ''foo'' = (''foo'', None) \<and>
   fst (splitLine '': bar'') = [] \<and>
   processLine (New [] True \<lparr>MaxID = 0, MaxEvent = 0, MaxData = 0, MaxReadBuffer = 0\<rparr>) '': bar'' =
     (New [] True \<lparr>MaxID = 0, MaxEvent = 0, MaxData = 0, MaxReadBuffer = 0\<rparr>, [])"
  using splitLine_first_colon [where k = "''foo''" and v = "''  bar: baz''" and line = "''foo''"
      and t = "'' bar''"
      and es = "New [] True \<lparr>MaxID = 0, MaxEvent = 0, MaxData = 0, MaxReadBuffer = 0\<rparr>"]
  by simp

section \<open>Properties of the message assembler\<close>

lemma small_es_eq:
  "small_es = \<lparr>req = [], callback = True,
                bp = \<lparr>MaxID = 2, MaxEvent = 2, MaxData = 4, MaxReadBuffer = 64\<rparr>,
                idBuf = Nil, eventBuf = Nil, dataBuf = Nil, msgErr = None,
                retryTimeout = 1000000000\<rparr>"
  by (simp add: small_es_def small_limits_def New_def Let_def Second_def Millisecond_def)

lemma default_es_eq:
  "default_es = \<lparr>req = [], callback = True,
                  bp = \<lparr>MaxID = 256, MaxEvent = 256, MaxData = 4194304, MaxReadBuffer = 64\<rparr>,
                  idBuf = Nil, eventBuf = Nil, dataBuf = Nil, msgErr = None,
                  retryTimeout = 1000000000\<rparr>"
  by (simp add: default_es_def New_def Let_def Second_def Millisecond_def
      DefaultMaxID_def DefaultMaxEvent_def DefaultMaxData_def)

lemma appendLimit_full:
  "limit < int (if len s \<noteq> 0 then len s + 1 + length (bytes_of ns) else length (bytes_of ns)) \<Longrightarrow>
   appendLimit s ns limit = (Nil, Some ErrBufferFull)"
  by (simp add: appendLimit_def Let_def split: if_splits)

lemma elems_reslice0 [simp]: "elems (reslice0 s) = []"
  by (cases s) simp_all

lemma splitLine_nonempty: "splitLine line = (key, val) \<Longrightarrow> key \<noteq> [] \<Longrightarrow> line \<noteq> []"
  by (auto simp: splitLine_def)

lemma processLine_id_full:
  assumes "msgErr es = None" "splitLine line = (''id'', val)"
    and "MaxID (bp es) < int (length (bytes_of val))"
  shows "processLine es line =
           (es\<lparr>idBuf := Nil,
               msgErr := Some (Wrapped ''eventsource: id field is too long'' ErrBufferFull)\<rparr>, [])"
proof -
  have "line \<noteq> []" using splitLine_nonempty [OF assms(2)] by simp
  moreover have "appendLimit (reslice0 (idBuf es)) val (MaxID (bp es)) = (Nil, Some ErrBufferFull)"
    using assms(3) by (intro appendLimit_full) simp
  ultimately show ?thesis using assms(1,2) by (simp add: processLine_def)
qed

lemma processLine_event_full:
  assumes "msgErr es = None" "splitLine line = (''event'', val)"
    and "MaxEvent (bp es) < int (length (bytes_of val))"
  shows "processLine es line =
           (es\<lparr>eventBuf := Nil,
               msgErr := Some (Wrapped ''eventsource: event field is too long'' ErrBufferFull)\<rparr>, [])"
proof -
  have "line \<noteq> []" using splitLine_nonempty [OF assms(2)] by simp
  moreover have "appendLimit (reslice0 (eventBuf es)) val (MaxEvent (bp es)) = (Nil, Some ErrBufferFull)"
    using assms(3) by (intro appendLimit_full) simp
  ultimately show ?thesis using assms(1,2) by (simp add: processLine_def)
qed

lemma processLine_data_full:
  assumes "msgErr es = None" "splitLine line = (''data'', val)"
    and "MaxData (bp es) <
         int (if len (dataBuf es) \<noteq> 0 then len (dataBuf es) + 1 + length (bytes_of val)
              else length (bytes_of val))"
  shows "processLine es line =
           (es\<lparr>dataBuf := Nil,
               msgErr := Some (Wrapped ''eventsource: data field is too long'' ErrBufferFull)\<rparr>, [])"
proof -
  have "line \<noteq> []" using splitLine_nonempty [OF assms(2)] by simp
  moreover have "appendLimit (dataBuf es) val (MaxData (bp es)) = (Nil, Some ErrBufferFull)"
    using assms(3) by (intro appendLimit_full)
  ultimately show ?thesis using assms(1,2) by (simp add: processLine_def)
qed

lemma processRequest_header:
  "len (idBuf es) = 0 \<Longrightarrow> processRequest es d = Some (c, es', evs) \<Longrightarrow> hd evs = Request (req es)"
  by (auto simp: processRequest_def Let_def split: doResult.splits if_splits option.splits prod.splits)

text \<open>
  Claim C10. When the value given to \<open>appendLimit\<close> would take the buffer over its limit,
  \<open>appendLimit\<close> returns the nil slice with the buffer-full error, and \<open>processRequest\<close>
  stores that nil slice: after an oversized \<open>id\<close>, \<open>event\<close> or \<open>data\<close> line the buffer of
  that field is nil, whatever it held. After an oversized \<open>id\<close> line the next request is
  sent with the header of the prototype: no identifier is left to resume from.
\<close>

theorem appendLimit_full_discards:
  "(limit < int (if len s \<noteq> 0 then len s + 1 + length (bytes_of ns) else length (bytes_of ns)) \<longrightarrow>
      appendLimit s ns limit = (Nil, Some ErrBufferFull)) \<and>
   (msgErr es = None \<and> splitLine line = (''id'', val) \<and>
    MaxID (bp es) < int (length (bytes_of val)) \<longrightarrow>
      idBuf (fst (processLine es line)) = Nil \<and>
      (\<forall>d c es' evs. processRequest (fst (processLine es line)) d = Some (c, es', evs) \<longrightarrow>
         hd evs = Request (req es))) \<and>
   (msgErr es = None \<and> splitLine line = (''event'', val) \<and>
    MaxEvent (bp es) < int (length (bytes_of val)) \<longrightarrow>
      eventBuf (fst (processLine es line)) = Nil) \<and>
   (msgErr es = None \<and> splitLine line = (''data'', val) \<and>
    MaxData (bp es) <
      int (if len (dataBuf es) \<noteq> 0 then len (dataBuf es) + 1 + length (bytes_of val)
           else length (bytes_of val)) \<longrightarrow>
      dataBuf (fst (processLine es line)) = Nil)"
proof (intro conjI impI allI)
  assume "limit < int (if len s \<noteq> 0 then len s + 1 + length (bytes_of ns) else length (bytes_of ns))"
  then show "appendLimit s ns limit = (Nil, Some ErrBufferFull)" by (rule appendLimit_full)
next
  assume a: "msgErr es = None \<and> splitLine line = (''id'', val) \<and>
    MaxID (bp es) < int (length (bytes_of val))"
  then have p: "processLine es line =
           (es\<lparr>idBuf := Nil,
               msgErr := Some (Wrapped ''eventsource: id field is too long'' ErrBufferFull)\<rparr>, [])"
    using processLine_id_full [of es line val] by simp
  show "idBuf (fst (processLine es line)) = Nil" by (simp add: p)
  fix d c es' evs
  assume "processRequest (fst (processLine es line)) d = Some (c, es', evs)"
  then show "hd evs = Request (req es)"
    using processRequest_header [of "fst (processLine es line)" d c es' evs] by (simp add: p)
next
  assume "msgErr es = None \<and> splitLine line = (''event'', val) \<and>
    MaxEvent (bp es) < int (length (bytes_of val))"
  then show "eventBuf (fst (processLine es line)) = Nil"
    using processLine_event_full [of es line val] by simp
next
  assume "msgErr es = None \<and> splitLine line = (''data'', val) \<and>
    MaxData (bp es) <
      int (if len (dataBuf es) \<noteq> 0 then len (dataBuf es) + 1 + length (bytes_of val)
           else length (bytes_of val))"
  then show "dataBuf (fst (processLine es line)) = Nil"
    using processLine_data_full [of es line val] by simp
qed


theorem appendLimit_full_discards_witness:
  "MaxID (bp small_es) < 3 \<and>
   appendLimit (Slice ''ab'' 4) (Some ''cd'') 4 = (Nil, Some ErrBufferFull) \<and>
   idBuf (fst (processLine (small_es\<lparr>idBuf := Slice ''7'' 2\<rparr>) ''id: 123'')) = Nil \<and>
   hd (snd (snd (the (processRequest
     (fst (processLine (small_es\<lparr>idBuf := Slice ''7'' 2\<rparr>) ''id: 123'')) (DoErr Canceled))))) =
     Request [] \<and>
   eventBuf (fst (processLine (small_es\<lparr>eventBuf := Slice ''e'' 2\<rparr>) ''event: 123'')) = Nil \<and>
   dataBuf (fst (processLine (small_es\<lparr>dataBuf := Slice ''ab'' 4\<rparr>) ''data: cd'')) = Nil"
proof -
  let ?es = "small_es\<lparr>idBuf := Slice ''7'' 2\<rparr>"
  let ?es' = "small_es\<lparr>eventBuf := Slice ''e'' 2\<rparr>"
  let ?es'' = "small_es\<lparr>dataBuf := Slice ''ab'' 4\<rparr>"
  have h1: "(4::int) < int (if len (Slice ''ab'' 4) \<noteq> 0
                            then len (Slice ''ab'' 4) + 1 + length (bytes_of (Some ''cd''))
                            else length (bytes_of (Some ''cd'')))" by simp
  have h2: "msgErr ?es = None \<and> splitLine ''id: 123'' = (''id'', Some ''123'') \<and>
            MaxID (bp ?es) < int (length (bytes_of (Some ''123'')))"
    by (simp add: small_es_eq splitLine_def)
  have h3: "msgErr ?es' = None \<and> splitLine ''event: 123'' = (''event'', Some ''123'') \<and>
            MaxEvent (bp ?es') < int (length (bytes_of (Some ''123'')))"
    by (simp add: small_es_eq splitLine_def)
  have h4: "msgErr ?es'' = None \<and> splitLine ''data: cd'' = (''data'', Some ''cd'') \<and>
            MaxData (bp ?es'') <
              int (if len (dataBuf ?es'') \<noteq> 0
                   then len (dataBuf ?es'') + 1 + length (bytes_of (Some ''cd''))
                   else length (bytes_of (Some ''cd'')))"
    by (simp add: small_es_eq splitLine_def)
  have r: "req ?es = []" by (simp add: small_es_eq)
  have m: "MaxID (bp small_es) < 3" by (simp add: small_es_eq)
  note T1 = appendLimit_full_discards [where limit = 4 and s = "Slice ''ab'' 4" and ns = "Some ''cd''"
      and es = ?es and line = "''id: 123''" and val = "Some ''123''"]
  note T2 = appendLimit_full_discards [where es = ?es' and line = "''event: 123''" and val = "Some ''123''"]
  note T3 = appendLimit_full_discards [where es = ?es'' and line = "''data: cd''" and val = "Some ''cd''"]
  have a1: "appendLimit (Slice ''ab'' 4) (Some ''cd'') 4 = (Nil, Some ErrBufferFull)"
    by (rule mp [OF T1 [THEN conjunct1] h1])
  have a2: "idBuf (fst (processLine ?es ''id: 123'')) = Nil \<and>
      (\<forall>d c es' evs. processRequest (fst (processLine ?es ''id: 123'')) d = Some (c, es', evs) \<longrightarrow>
         hd evs = Request (req ?es))"
    by (rule mp [OF T1 [THEN conjunct2, THEN conjunct1] h2])
  have a3: "eventBuf (fst (processLine ?es' ''event: 123'')) = Nil"
    by (rule mp [OF T2 [THEN conjunct2, THEN conjunct2, THEN conjunct1] h3])
  have a4: "dataBuf (fst (processLine ?es'' ''data: cd'')) = Nil"
    by (rule mp [OF T3 [THEN conjunct2, THEN conjunct2, THEN conjunct2] h4])
  define es1 where "es1 = fst (processLine ?es ''id: 123'')"
  define evs where "evs = [Request (if len (idBuf es1) \<noteq> 0
                                    then Header_Set (req es1) ''Last-Event-Id'' (elems (idBuf es1))
                                    else req es1),
                           Sleep (retryTimeout es1)]"
  have pr: "processRequest es1 (DoErr Canceled) = Some (False, es1, evs)"
    by (simp add: processRequest_def Let_def evs_def)
  have "hd evs = Request (req ?es)"
    using a2 [THEN conjunct2, rule_format, of "DoErr Canceled" False es1 evs] pr
    by (simp only: es1_def)
  then have a5: "hd (snd (snd (the (processRequest es1 (DoErr Canceled))))) = Request []"
    by (simp add: pr r)
  show ?thesis using a1 a2 [THEN conjunct1] a3 a4 a5 m by (simp add: es1_def)
qed

lemma streamLoop_line:
  "ReadLine rb = ((line, None), rb') \<Longrightarrow> processLine es line = (es1, evs) \<Longrightarrow>
   streamLoop es rb = (fst (streamLoop es1 rb'), fst (snd (streamLoop es1 rb')),
                       evs @ snd (snd (streamLoop es1 rb')))"
  by (subst streamLoop.simps) (simp add: split_beta)

lemma processLine_skip: "msgErr es \<noteq> None \<Longrightarrow> l \<noteq> [] \<Longrightarrow> processLine es l = (es, [])"
  by (simp add: processLine_def)

lemma processLines_skip:
  "msgErr es \<noteq> None \<Longrightarrow> \<forall>l\<in>set ls. l \<noteq> [] \<Longrightarrow> processLines es (ls @ rest) = processLines es rest"
  by (induction ls) (simp_all add: processLine_skip)

lemma processLine_exceeds:
  assumes "msgErr es = None" "splitLine line = (key, val)" "exceeds es key val"
  shows "\<exists>es1 e. processLine es line = (es1, []) \<and> msgErr es1 = Some e \<and> errors_Is e ErrBufferFull \<and>
           callback es1 = callback es"
  using assms processLine_id_full [of es line val] processLine_event_full [of es line val]
    processLine_data_full [of es line val]
  unfolding exceeds_def by (elim disjE) auto

lemma processLine_blank_error:
  "msgErr es = Some e \<Longrightarrow> callback es \<Longrightarrow>
   processLine es [] = (perMessageReset es, [Callback emptyMessage (Some e)])"
  by (simp add: processLine_def dispatch_def)

text \<open>
  Claim C5. When the value of an \<open>id\<close>, \<open>event\<close> or \<open>data\<close> line does not fit, the line
  records an error that wraps the buffer-full error and calls nothing; every following
  line that is not blank leaves the state as it is and calls nothing; the blank line calls
  the callback once, with the empty message and that error, clears the error and leaves
  the three buffers empty. The loop goes on reading the same response at each of these
  lines, and the lines after the blank one are processed from the state so reset.
\<close>

theorem field_too_long_per_message:
  assumes "msgErr es = None" and "callback es"
    and "splitLine line = (key, val)" and "exceeds es key val"
  shows "\<exists>es1 e es2.
     processLine es line = (es1, []) \<and> msgErr es1 = Some e \<and> errors_Is e ErrBufferFull \<and>
     (\<forall>l. l \<noteq> [] \<longrightarrow> processLine es1 l = (es1, [])) \<and>
     processLine es1 [] = (es2, [Callback emptyMessage (Some e)]) \<and>
     msgErr es2 = None \<and> len (idBuf es2) = 0 \<and> len (eventBuf es2) = 0 \<and> len (dataBuf es2) = 0 \<and>
     (\<forall>rb rb'. ReadLine rb = ((line, None), rb') \<longrightarrow> streamLoop es rb = streamLoop es1 rb') \<and>
     (\<forall>l rb rb'. l \<noteq> [] \<and> ReadLine rb = ((l, None), rb') \<longrightarrow>
        streamLoop es1 rb = streamLoop es1 rb') \<and>
     (\<forall>rb rb'. ReadLine rb = (([], None), rb') \<longrightarrow>
        streamLoop es1 rb =
          (fst (streamLoop es2 rb'), fst (snd (streamLoop es2 rb')),
           Callback emptyMessage (Some e) # snd (snd (streamLoop es2 rb')))) \<and>
     (\<forall>ls rest. (\<forall>l\<in>set ls. l \<noteq> []) \<longrightarrow>
        processLines es (line # ls @ [] # rest) =
          (fst (processLines es2 rest),
           Callback emptyMessage (Some e) # snd (processLines es2 rest)))"
proof -
  from processLine_exceeds [OF assms(1,3,4)] assms(2)
  obtain es1 e where p1: "processLine es line = (es1, [])" and e1: "msgErr es1 = Some e"
    and isf: "errors_Is e ErrBufferFull" and cb: "callback es1" by auto
  define es2 where "es2 = perMessageReset es1"
  have skip: "l \<noteq> [] \<Longrightarrow> processLine es1 l = (es1, [])" for l
    using e1 by (simp add: processLine_skip)
  have p2: "processLine es1 [] = (es2, [Callback emptyMessage (Some e)])"
    using processLine_blank_error [OF e1 cb] by (simp add: es2_def)
  have r: "msgErr es2 = None \<and> len (idBuf es2) = 0 \<and> len (eventBuf es2) = 0 \<and> len (dataBuf es2) = 0"
    by (simp add: es2_def perMessageReset_def)
  have s1: "streamLoop es rb = streamLoop es1 rb'" if "ReadLine rb = ((line, None), rb')" for rb rb'
    using streamLoop_line [OF that p1] by simp
  have s2: "streamLoop es1 rb = streamLoop es1 rb'"
    if "l \<noteq> [] \<and> ReadLine rb = ((l, None), rb')" for l rb rb'
    using that streamLoop_line [of rb l rb' es1 es1 "[]"] skip [of l] by simp
  have s3: "streamLoop es1 rb =
          (fst (streamLoop es2 rb'), fst (snd (streamLoop es2 rb')),
           Callback emptyMessage (Some e) # snd (snd (streamLoop es2 rb')))"
    if "ReadLine rb = (([], None), rb')" for rb rb'
    using streamLoop_line [OF that p2] by simp
  have s4: "processLines es (line # ls @ [] # rest) =
          (fst (processLines es2 rest),
           Callback emptyMessage (Some e) # snd (processLines es2 rest))"
    if "\<forall>l\<in>set ls. l \<noteq> []" for ls rest
  proof -
    have "processLines es1 (ls @ [] # rest) = processLines es1 ([] # rest)"
      using processLines_skip [OF _ that, of es1] e1 by simp
    then show ?thesis using p1 p2 by (simp add: split_beta)
  qed
  show ?thesis
    using p1 e1 isf skip p2 r s1 s2 s3 s4 by blast
qed

theorem field_too_long_per_message_witness:
  "msgErr small_es = None \<and> callback small_es \<and>
   splitLine ''id: 123'' = (''id'', Some ''123'') \<and> exceeds small_es ''id'' (Some ''123'') \<and>
   (\<exists>es1 e es2.
     processLine small_es ''id: 123'' = (es1, []) \<and> msgErr es1 = Some e \<and>
     errors_Is e ErrBufferFull \<and>
     (\<forall>l. l \<noteq> [] \<longrightarrow> processLine es1 l = (es1, [])) \<and>
     processLine es1 [] = (es2, [Callback emptyMessage (Some e)]) \<and>
     msgErr es2 = None \<and> len (idBuf es2) = 0 \<and> len (eventBuf es2) = 0 \<and> len (dataBuf es2) = 0 \<and>
     (\<forall>rb rb'. ReadLine rb = ((''id: 123'', None), rb') \<longrightarrow>
        streamLoop small_es rb = streamLoop es1 rb') \<and>
     (\<forall>l rb rb'. l \<noteq> [] \<and> ReadLine rb = ((l, None), rb') \<longrightarrow>
        streamLoop es1 rb = streamLoop es1 rb') \<and>
     (\<forall>rb rb'. ReadLine rb = (([], None), rb') \<longrightarrow>
        streamLoop es1 rb =
          (fst (streamLoop es2 rb'), fst (snd (streamLoop es2 rb')),
           Callback emptyMessage (Some e) # snd (snd (streamLoop es2 rb')))) \<and>
     (\<forall>ls rest. (\<forall>l\<in>set ls. l \<noteq> []) \<longrightarrow>
        processLines small_es (''id: 123'' # ls @ [] # rest) =
          (fst (processLines es2 rest),
           Callback emptyMessage (Some e) # snd (processLines es2 rest))))"
proof -
  have h1: "msgErr small_es = None" by (simp add: small_es_eq)
  have h2: "callback small_es" by (simp add: small_es_eq)
  have h3: "splitLine ''id: 123'' = (''id'', Some ''123'')" by (simp add: splitLine_def)
  have h4: "exceeds small_es ''id'' (Some ''123'')"
    by (simp add: exceeds_def small_es_eq)
  show ?thesis
    by (rule conjI [OF h1 conjI [OF h2 conjI [OF h3 conjI [OF h4
          field_too_long_per_message [OF h1 h2 h3 h4]]]]])
qed

section \<open>Properties of the retry field\<close>

lemma sint_milliseconds:
  assumes "- 9223372036854 \<le> ms" "ms \<le> 9223372036854"
  shows "sint (word_of_int ms * Millisecond :: 64 word) = ms * 1000000"
proof -
  have "word_of_int ms * Millisecond = (word_of_int (ms * 1000000) :: 64 word)"
    by (simp add: Millisecond_def)
  moreover have "sint (word_of_int (ms * 1000000) :: 64 word) = ms * 1000000"
  proof -
    have b: "- (2 ^ 63) \<le> ms * 1000000" "ms * 1000000 < 2 ^ 63" using assms by simp_all
    have "sint (word_of_int (ms * 1000000) :: 64 word) = signed_take_bit 63 (ms * 1000000)"
      by (simp only: signed_of_int) simp
    also have "\<dots> = ms * 1000000" by (rule signed_take_bit_int_eq_self [OF b])
    finally show ?thesis .
  qed
  ultimately show ?thesis by (simp only:)
qed

lemma processLine_retry:
  assumes "msgErr es = None" "splitLine line = (''retry'', val)"
  shows "processLine es line =
           (case ParseInt (bytes_of val) of
              Some ms \<Rightarrow> (es\<lparr>retryTimeout := word_of_int ms * Millisecond\<rparr>, [])
            | None \<Rightarrow> (es, []))"
proof -
  have "line \<noteq> []" using assms(2) by (auto simp: splitLine_def)
  then show ?thesis using assms by (simp add: processLine_def)
qed

lemma processLine_retryTimeout:
  "fst (splitLine l) \<noteq> ''retry'' \<Longrightarrow> retryTimeout (fst (processLine es l)) = retryTimeout es"
  by (auto simp: processLine_def perMessageReset_def Let_def split: prod.splits option.splits)

lemma ParseInt_5000: "ParseInt ''5000'' = Some 5000"
  by (simp add: ParseInt_def is_digit_def digit_val_def)

lemma ParseInt_minus5: "ParseInt ''-5'' = Some (- 5)"
  by (simp add: ParseInt_def is_digit_def digit_val_def)

lemma ParseInt_bad: "ParseInt ''5s'' = None"
  by (simp add: ParseInt_def is_digit_def digit_val_def)

text \<open>
  Claim C6, as the code has it. The value of a \<open>retry\<close> line is parsed by
  \<^verbatim>\<open>strconv.ParseInt\<close> as a signed decimal integer. When the parse succeeds with a count
  of milliseconds that a signed 64-bit count of nanoseconds can hold, that count becomes
  the delay, nothing else changes and nothing is called. When the parse fails the line
  changes nothing and calls nothing. No other line and no reset changes the delay, and
  the sleep that ends each request uses it.
\<close>

theorem retry_field_sets_delay:
  assumes "msgErr es = None" and "splitLine line = (''retry'', val)"
  shows "(\<forall>ms. ParseInt (bytes_of val) = Some ms \<and> - 9223372036854 \<le> ms \<and> ms \<le> 9223372036854 \<longrightarrow>
            (\<exists>d. processLine es line = (es\<lparr>retryTimeout := d\<rparr>, []) \<and> sint d = ms * 1000000)) \<and>
         (ParseInt (bytes_of val) = None \<longrightarrow> processLine es line = (es, [])) \<and>
         (\<forall>es' l. fst (splitLine l) \<noteq> ''retry'' \<longrightarrow>
            retryTimeout (fst (processLine es' l)) = retryTimeout es') \<and>
         (\<forall>es'. retryTimeout (perRequestReset es') = retryTimeout es') \<and>
         (\<forall>es' d c es'' evs. processRequest es' d = Some (c, es'', evs) \<longrightarrow>
            last evs = Sleep (retryTimeout es''))"
proof (intro conjI allI impI)
  fix ms
  assume "ParseInt (bytes_of val) = Some ms \<and> - 9223372036854 \<le> ms \<and> ms \<le> 9223372036854"
  then show "\<exists>d. processLine es line = (es\<lparr>retryTimeout := d\<rparr>, []) \<and> sint d = ms * 1000000"
    using processLine_retry [OF assms] sint_milliseconds [of ms]
    by (intro exI [of _ "word_of_int ms * Millisecond"]) simp
next
  assume "ParseInt (bytes_of val) = None"
  then show "processLine es line = (es, [])" using processLine_retry [OF assms] by simp
next
  fix es' l
  assume "fst (splitLine l) \<noteq> ''retry''"
  then show "retryTimeout (fst (processLine es' l)) = retryTimeout es'"
    by (rule processLine_retryTimeout)
next
  fix es'
  show "retryTimeout (perRequestReset es') = retryTimeout es'" by (simp add: perRequestReset_def)
next
  fix es' d c es'' evs
  assume "processRequest es' d = Some (c, es'', evs)"
  then show "last evs = Sleep (retryTimeout es'')"
    by (auto simp: processRequest_def Let_def split: doResult.splits if_splits option.splits prod.splits)
qed

theorem retry_field_sets_delay_witness:
  "msgErr default_es = None \<and>
   splitLine ''retry: 5000'' = (''retry'', Some ''5000'') \<and> ParseInt ''5000'' = Some 5000 \<and>
   (\<exists>d. processLine default_es ''retry: 5000'' = (default_es\<lparr>retryTimeout := d\<rparr>, []) \<and>
        sint d = 5000 * 1000000) \<and>
   splitLine ''retry: 5s'' = (''retry'', Some ''5s'') \<and> ParseInt ''5s'' = None \<and>
   processLine default_es ''retry: 5s'' = (default_es, []) \<and>
   fst (splitLine ''data: x'') \<noteq> ''retry'' \<and>
   retryTimeout (fst (processLine default_es ''data: x'')) = retryTimeout default_es"
proof -
  have m: "msgErr default_es = None" by (simp add: default_es_eq)
  have s1: "splitLine ''retry: 5000'' = (''retry'', Some ''5000'')" by (simp add: splitLine_def)
  have s2: "splitLine ''retry: 5s'' = (''retry'', Some ''5s'')" by (simp add: splitLine_def)
  have s3: "fst (splitLine ''data: x'') \<noteq> ''retry''" by (simp add: splitLine_def)
  have p1: "ParseInt (bytes_of (Some ''5000'')) = Some 5000 \<and>
            - 9223372036854 \<le> (5000::int) \<and> (5000::int) \<le> 9223372036854"
    using ParseInt_5000 by simp
  have p2: "ParseInt (bytes_of (Some ''5s'')) = None" using ParseInt_bad by simp
  note T1 = retry_field_sets_delay [OF m s1]
  note T2 = retry_field_sets_delay [OF m s2]
  have a1: "\<exists>d. processLine default_es ''retry: 5000'' = (default_es\<lparr>retryTimeout := d\<rparr>, []) \<and>
        sint d = 5000 * 1000000"
    by (rule T1 [THEN conjunct1, rule_format, OF p1])
  have a2: "processLine default_es ''retry: 5s'' = (default_es, [])"
    by (rule T2 [THEN conjunct2, THEN conjunct1, rule_format, OF p2])
  have a3: "retryTimeout (fst (processLine default_es ''data: x'')) = retryTimeout default_es"
    by (rule T1 [THEN conjunct2, THEN conjunct2, THEN conjunct1, rule_format, OF s3])
  show ?thesis using m s1 s2 s3 a1 a2 a3 ParseInt_5000 ParseInt_bad by blast
qed

text \<open>
  Claim C6 as stated fails: the value \<open>-5\<close> is not a non-negative integer, yet the line
  is not ignored; the delay goes from one second to minus five milliseconds.
\<close>

theorem retry_negative_counterexample:
  "splitLine ''retry: -5'' = (''retry'', Some ''-5'') \<and>
   sint (retryTimeout default_es) = 1000000000 \<and>
   msgErr default_es = None \<and>
   sint (retryTimeout (fst (processLine default_es ''retry: -5''))) = - 5000000"
proof -
  have s: "splitLine ''retry: -5'' = (''retry'', Some ''-5'')" by (simp add: splitLine_def)
  have m: "msgErr default_es = None" by (simp add: default_es_eq)
  have "processLine default_es ''retry: -5'' =
          (default_es\<lparr>retryTimeout := word_of_int (- 5) * Millisecond\<rparr>, [])"
    using processLine_retry [OF m s] ParseInt_minus5 by simp
  then have "sint (retryTimeout (fst (processLine default_es ''retry: -5''))) = - 5000000"
    by (simp add: Millisecond_def)
  moreover have "sint (retryTimeout default_es) = 1000000000" by (simp add: default_es_eq)
  ultimately show ?thesis using s m by simp
qed

text \<open>
  Beyond 9223372036854 milliseconds the multiplication by \<^verbatim>\<open>time.Millisecond\<close> wraps
  around.
\<close>

lemma retry_overflow_example:
  "ParseInt ''9223372036854775807'' = Some 9223372036854775807 \<and>
   sint (retryTimeout (fst (processLine default_es ''retry: 9223372036854775807''))) = - 1000000"
proof -
  have p: "ParseInt ''9223372036854775807'' = Some 9223372036854775807"
    by (simp add: ParseInt_def is_digit_def digit_val_def)
  have s: "splitLine ''retry: 9223372036854775807'' = (''retry'', Some ''9223372036854775807'')"
    by (simp add: splitLine_def)
  have m: "msgErr default_es = None" by (simp add: default_es_eq)
  show ?thesis using processLine_retry [OF m s] p by (simp add: Millisecond_def)
qed


section \<open>Messages and reconnects on concrete streams\<close>

text \<open>
  Claim C7. The claim says that a field which no line of a message set is nil in the
  message dispatched, and that this tells it from a field set to the empty value. On
  the first stream below the second message has no \<open>id\<close> line, and its identifier is an
  empty slice that is not nil; on the second stream the \<open>id\<close> line sets the empty
  value, and the identifier is nil.
\<close>

theorem unset_field_reported_empty:
  "map_option (snd \<circ> snd)
     (processRequest default_es (eventStream (''id: 1'' @ [LF, LF] @ ''data: x'' @ [LF, LF]))) =
   Some [Request [],
         Callback \<lparr>ID = Slice ''1'' 1, Event = Nil, Data = Nil\<rparr> None,
         Callback \<lparr>ID = Slice [] 1, Event = Nil, Data = Slice ''x'' 1\<rparr> None,
         Sleep 1000000000] \<and>
   map_option (snd \<circ> snd)
     (processRequest default_es (eventStream (''id:'' @ [LF] @ ''data: x'' @ [LF, LF]))) =
   Some [Request [],
         Callback \<lparr>ID = Nil, Event = Nil, Data = Slice ''x'' 1\<rparr> None,
         Sleep 1000000000]"
  by code_simp

text \<open>
  Claim C1. The claim says that after the stream \<^verbatim>\<open>id: 1\ndata: hello\n\n\<close> has ended the
  next request carries \<^verbatim>\<open>Last-Event-Id: 1\<close>. The worker dispatches the one message, then
  sends the second request with the header of the prototype alone.
\<close>

theorem reconnect_without_last_event_id:
  "map_option snd
     (worker default_es
        [eventStream (''id: 1'' @ [LF] @ ''data: hello'' @ [LF, LF]), DoErr Canceled]) =
   Some [Request [],
         Callback \<lparr>ID = Slice ''1'' 1, Event = Nil, Data = Slice ''hello'' 5\<rparr> None,
         Sleep 1000000000,
         Request [],
         Sleep 1000000000]"
  by code_simp

text \<open>
  The header is sent only when the stream ends inside a message, after its \<open>id\<close> line:
  every blank line truncates the identifier buffer.
\<close>

lemma blank_line_empties_idBuf: "len (idBuf (fst (processLine es []))) = 0"
  by (simp add: processLine_def perMessageReset_def Let_def)

lemma reconnect_with_last_event_id_mid_message:
  "map_option snd
     (worker default_es
        [eventStream (''id: 1'' @ [LF] @ ''data: hello'' @ [LF]), DoErr Canceled]) =
   Some [Request [],
         Sleep 1000000000,
         Request [(''Last-Event-Id'', ''1'')],
         Sleep 1000000000]"
  by code_simp

end
